theory Spec2Isabelle
  imports Complex_Main
begin

section \<open>Rows of the two tables\<close>

text \<open>
  The program stores products and vehicles in two tables and reads them back as tuples.
  The dictionaries built by the two registration functions (\<open>dados_produtos\<close>,
  \<open>dados_transporte\<close>) share the keys \<open>ventilacao\<close> and \<open>protecao_solar\<close>; a row
  fetched from a table is such a dictionary plus the identifier column.  The two flags
  are stored as the literal strings \<open>'SIM'\<close> and \<open>'NAO'\<close>.  Temperatures are numbers
  read back from the store; they are modelled as reals, quantities and capacities as
  integers.
\<close>

record condicoes =
  ventilacao :: string
  protecao_solar :: string

record dados_transporte = condicoes +
  capacidade :: int
  temperatura :: real

record linha_veiculo = dados_transporte +
  id_veiculo :: int

record dados_produtos = condicoes +
  produto :: string
  quantidade :: int
  origem :: string
  destino :: string
  temperatura_minima :: real
  temperatura_maxima :: real

record linha_produto = dados_produtos +
  id_produto :: int

section \<open>The compatibility loop of \<open>comparar_veiculo\<close>\<close>

text \<open>
  The four flags computed for one vehicle in the body of the \<open>for\<close> loop
  (\<open>capacidade_ok\<close>, \<open>temperatura_ok\<close>, \<open>ventilacao_ok\<close>, \<open>protecao_solar_ok\<close>).
\<close>

definition capacidade_ok :: "linha_produto \<Rightarrow> linha_veiculo \<Rightarrow> bool" where
  "capacidade_ok p v = (quantidade p \<le> capacidade v)"

definition temperatura_ok :: "linha_produto \<Rightarrow> linha_veiculo \<Rightarrow> bool" where
  "temperatura_ok p v =
     (temperatura_minima p \<le> temperatura v \<and> temperatura v \<le> temperatura_maxima p)"

definition ventilacao_ok :: "linha_produto \<Rightarrow> linha_veiculo \<Rightarrow> bool" where
  "ventilacao_ok p v =
     ((ventilacao p = ''SIM'' \<and> ventilacao v = ''SIM'') \<or>
      (ventilacao p = ''NAO'' \<and> ventilacao v = ''NAO''))"

definition protecao_solar_ok :: "linha_produto \<Rightarrow> linha_veiculo \<Rightarrow> bool" where
  "protecao_solar_ok p v =
     ((protecao_solar p = ''SIM'' \<and> protecao_solar v = ''SIM'') \<or>
      (protecao_solar p = ''NAO'' \<and> protecao_solar v = ''NAO''))"

definition compativel :: "linha_produto \<Rightarrow> linha_veiculo \<Rightarrow> bool" where
  "compativel p v =
     (capacidade_ok p v \<and> temperatura_ok p v \<and> ventilacao_ok p v \<and> protecao_solar_ok p v)"

text \<open>
  The loop itself: the vehicles are visited in the order the store returned them and the
  loop leaves at the first one whose four flags all hold.  \<open>Some v\<close> is the vehicle the
  program then prints (returning \<open>True\<close>); \<open>None\<close> is the fall-through after the loop.
\<close>

fun percorrer_veiculos :: "linha_produto \<Rightarrow> linha_veiculo list \<Rightarrow> linha_veiculo option" where
  "percorrer_veiculos p [] = None"
| "percorrer_veiculos p (v # vs) =
     (if compativel p v then Some v else percorrer_veiculos p vs)"

text \<open>
  The four conditions as the specification words them (section 4.1): capacity at least
  the quantity, temperature inside the closed range, and the two flags equal.
\<close>

definition quatro_condicoes :: "linha_produto \<Rightarrow> linha_veiculo \<Rightarrow> bool" where
  "quatro_condicoes p v =
     (capacidade v \<ge> quantidade p \<and>
      temperatura_minima p \<le> temperatura v \<and> temperatura v \<le> temperatura_maxima p \<and>
      ventilacao v = ventilacao p \<and>
      protecao_solar v = protecao_solar p)"

text \<open>A flag column holds one of the two literals the registration functions write.\<close>

definition sim_ou_nao :: "string \<Rightarrow> bool" where
  "sim_ou_nao s = (s = ''SIM'' \<or> s = ''NAO'')"

section \<open>Python strings and the built-ins the program calls on them\<close>

text \<open>
  A Python \<open>str\<close> is a sequence of code points.  The model takes the console to deliver
  Latin-1 code points, so that a \<open>char\<close> is one code point (\<open>of_char\<close> is its number):
  this covers the letter a-tilde of the negative answer (code point 227, written
  \<open>CHR 0xE3\<close>) and the superscript digits of that block.
\<close>

definition py_lower_char :: "char \<Rightarrow> char" where
  "py_lower_char c =
     (let n = (of_char c :: nat)
      in if (65 \<le> n \<and> n \<le> 90) \<or> (192 \<le> n \<and> n \<le> 222 \<and> n \<noteq> 215)
         then char_of (n + 32) else c)"

definition py_lower :: "string \<Rightarrow> string" where
  "py_lower s = map py_lower_char s"

definition digito_decimal :: "char \<Rightarrow> bool" where
  "digito_decimal c = (48 \<le> (of_char c :: nat) \<and> (of_char c :: nat) \<le> 57)"

definition valor_digito :: "char \<Rightarrow> nat" where
  "valor_digito c = of_char c - 48"

text \<open>
  \<open>str.isdigit\<close>: the string is not empty and every character has the Unicode digit
  property.  In Latin-1 these are the ten decimal digits and the superscripts two,
  three and one (code points 178, 179 and 185).
\<close>

definition caractere_digito :: "char \<Rightarrow> bool" where
  "caractere_digito c =
     (digito_decimal c \<or> (of_char c :: nat) = 178 \<or> (of_char c :: nat) = 179
        \<or> (of_char c :: nat) = 185)"

definition str_isdigit :: "string \<Rightarrow> bool" where
  "str_isdigit s = (s \<noteq> [] \<and> list_all caractere_digito s)"

text \<open>
  \<open>int(s)\<close> in base ten: white space around the literal is dropped, one sign may come
  first, then decimal digits, with single underscores allowed between two digits.
  Anything else raises \<open>ValueError\<close> (\<open>None\<close> here); in particular a superscript digit is
  not a decimal digit.  A literal with more digits than the interpreter's limit raises
  \<open>ValueError\<close> too; the limit is 4300 unless the interpreter is told otherwise, and
  leading zeros count while the sign and the underscores do not.
\<close>

definition int_max_str_digits :: nat where
  "int_max_str_digits = 4300"

definition espaco_int :: "char \<Rightarrow> bool" where
  "espaco_int c =
     (let n = (of_char c :: nat)
      in (9 \<le> n \<and> n \<le> 13) \<or> n = 32 \<or> n = 133 \<or> n = 160)"

fun digitos_valor :: "nat \<Rightarrow> string \<Rightarrow> nat option" where
  "digitos_valor acc [] = Some acc"
| "digitos_valor acc (c # cs) =
     (if digito_decimal c then digitos_valor (10 * acc + valor_digito c) cs
      else if c = CHR ''_'' then
        (case cs of
           [] \<Rightarrow> None
         | d # ds \<Rightarrow>
             if digito_decimal d then digitos_valor (10 * acc + valor_digito d) ds else None)
      else None)"

definition literal_decimal :: "string \<Rightarrow> nat option" where
  "literal_decimal s =
     (case s of
        [] \<Rightarrow> None
      | c # cs \<Rightarrow>
          if digito_decimal c then
            (if int_max_str_digits < length (filter digito_decimal s) then None
             else digitos_valor (valor_digito c) cs)
          else None)"

definition py_int :: "string \<Rightarrow> int option" where
  "py_int s =
     (let t = rev (dropWhile espaco_int (rev (dropWhile espaco_int s)))
      in case t of
           [] \<Rightarrow> None
         | c # cs \<Rightarrow>
             if c = CHR ''+'' then map_option int (literal_decimal cs)
             else if c = CHR ''-'' then map_option (\<lambda>n. - int n) (literal_decimal cs)
             else map_option int (literal_decimal t))"

section \<open>Console, store and control flow as explicit state\<close>

text \<open>
  The prompts handed to \<open>input\<close> and the messages handed to \<open>print\<close>, one constructor
  for each text of the source.  Clearing the screen (\<open>os.system('cls')\<close>) changes no data
  and is left out.

  The failures the source handles are branches of the model: a \<open>ValueError\<close> of a
  conversion, a \<open>DatabaseError\<close> of an insertion.  The ones it has no handler for and
  that depend on the machine alone are outside it: the store answers every query and
  the depth of the recursion of \<open>comparar_veiculo\<close> is not limited.  The console input is
  a finite list of lines; reading past its end raises \<open>EOFError\<close>.
\<close>

datatype pergunta =
    PNomeProduto | POrigem | PDestino | PQuantidade | PTemperaturaMinima | PTemperaturaMaxima
  | PRequerVentilacao | PRequerProtecao
  | PCapacidade | PTemperaturaTransporte | PTemVentilacao | PTemProtecao
  | PIdProduto | PEscolha | PEnter | POpcaoSeis | PIdProdutoJson | PIdVeiculoJson

datatype json = JInt int | JFloat real | JStr string

datatype msg =
    Pergunta pergunta
  | CampoVazio string
  | NumeroInvalido
  | ValorInvalido
  | SimOuNao
  | DadosGravados
  | ErroInserir
  | CabecalhoProdutos
  | SemProdutos
  | TabelaProdutos "linha_produto list"
  | Listados
  | SemVeiculosComparacao
  | VeiculoDisponivel linha_veiculo linha_produto
  | NenhumVeiculo "string list"
  | ProdutoNaoEncontrado string
  | CabecalhoVeiculos
  | SemVeiculos
  | TabelaVeiculos "linha_veiculo list"
  | TextoMenu
  | EscolhaInvalida
  | Saindo
  | ProdutoSalvo string
  | IdProdutoInvalido
  | SemProdutosJson
  | VeiculoSalvo int
  | IdVeiculoInvalido
  | SemVeiculosJson
  | ErroConexao
  | SemConexao

text \<open>
  The name of an exported file is fixed by the product's name (\<open>produto_<name>.json\<close>) or
  by the vehicle's identifier (\<open>veiculo_<id>.json\<close>).
\<close>

datatype nome_arquivo = ArquivoProduto string | ArquivoVeiculo int

record banco =
  produtos :: "linha_produto list"
  veiculos :: "linha_veiculo list"

text \<open>
  The state the program acts on: the lines still to be typed at the console, what has
  been printed so far, the two tables, and the files written (name and JSON object).
\<close>

record mundo =
  entrada :: "string list"
  saida :: "msg list"
  tabelas :: banco
  arquivos :: "(nome_arquivo \<times> (string \<times> json) list) list"

text \<open>
  How a call ends: it returns a value, an exception leaves it, or the interpreter is
  stopped by \<open>exit(0)\<close>.  Each outcome carries the state reached.
\<close>

datatype py_error = EOFError | ValueError | IndexError | KeyError | TypeError | OSError

datatype 'a res = Ret 'a mundo | Raise py_error mundo | Exit mundo

definition bind :: "'a res \<Rightarrow> ('a \<Rightarrow> mundo \<Rightarrow> 'b res) \<Rightarrow> 'b res" where
  "bind r f = (case r of Ret x w \<Rightarrow> f x w | Raise e w \<Rightarrow> Raise e w | Exit w \<Rightarrow> Exit w)"

definition py_print :: "msg \<Rightarrow> mundo \<Rightarrow> mundo" where
  "py_print m w = w\<lparr>saida := saida w @ [m]\<rparr>"

text \<open>\<open>input(q)\<close> shows the prompt and reads one line; at the end of the input it raises.\<close>

definition py_input :: "pergunta \<Rightarrow> mundo \<Rightarrow> string res" where
  "py_input q w =
     (case entrada w of
        [] \<Rightarrow> Raise EOFError (py_print (Pergunta q) w)
      | l # ls \<Rightarrow> Ret l (py_print (Pergunta q) (w\<lparr>entrada := ls\<rparr>)))"

lemma bind_cong [fundef_cong]:
  "r = r' \<Longrightarrow> (\<And>x w. r' = Ret x w \<Longrightarrow> f x w = f' x w) \<Longrightarrow> bind r f = bind r' f'"
  by (cases r') (simp_all add: bind_def)

lemma bind_simps [simp]:
  "bind (Ret x w) f = f x w"
  "bind (Raise e w) f = Raise e w"
  "bind (Exit w) f = Exit w"
  by (simp_all add: bind_def)

lemma entrada_py_print [simp]: "entrada (py_print m w) = entrada w"
  by (simp add: py_print_def)

lemma tabelas_py_print [simp]: "tabelas (py_print m w) = tabelas w"
  by (simp add: py_print_def)

lemma arquivos_py_print [simp]: "arquivos (py_print m w) = arquivos w"
  by (simp add: py_print_def)

lemma saida_py_print [simp]: "saida (py_print m w) = saida w @ [m]"
  by (simp add: py_print_def)

lemma py_input_Ret: "py_input q w = Ret l w' \<Longrightarrow> entrada w = l # entrada w'"
  by (auto simp: py_input_def split: list.splits)

section \<open>\<open>perguntar_sim_nao\<close>\<close>

text \<open>The three strings of the list the answer is looked up in; the second is spelt with a-tilde.\<close>

definition respostas_aceitas :: "string list" where
  "respostas_aceitas = [''sim'', [CHR ''n'', CHR 0xE3, CHR ''o''], ''nao'']"

function perguntar_sim_nao :: "pergunta \<Rightarrow> mundo \<Rightarrow> bool res" where
  "perguntar_sim_nao q w =
     bind (py_input q w) (\<lambda>l w1.
       let resposta = py_lower l
       in if resposta \<in> set respostas_aceitas then Ret (resposta = ''sim'') w1
          else perguntar_sim_nao q (py_print SimOuNao w1))"
  by pat_completeness auto
termination
  by (relation "measure (\<lambda>(q, w). length (entrada w))") (auto dest: py_input_Ret)

declare perguntar_sim_nao.simps [simp del]

text \<open>An answer is accepted when its lower-cased text is in the list.\<close>

definition aceita :: "string \<Rightarrow> bool" where
  "aceita l = (py_lower l \<in> set respostas_aceitas)"

section \<open>What the source leaves to its surroundings\<close>

text \<open>
  Five things the program relies on are not decided by its source and are taken as
  parameters: the value \<open>float\<close> gives for a line (\<open>None\<close> when it raises \<open>ValueError\<close>);
  what an \<open>INSERT\<close> does to each table, whose declarations, with the identifier column
  the store fills in, are not part of the source (\<open>None\<close> when the store raises
  \<open>DatabaseError\<close>); whether \<open>open(arquivo, 'w')\<close> succeeds for a file name (\<open>Some e\<close> when
  it raises \<open>e\<close>: the name is built from a product's name, which the registration only
  requires not to be empty, so it may name a directory that does not exist or hold a
  character a file name cannot have); whether \<open>json.dump\<close> accepts the values of a row
  taken out of a data frame (\<open>Some e\<close> when it raises \<open>e\<close>); and whether the connection
  could be opened.
\<close>

record ambiente =
  py_float :: "string \<Rightarrow> real option"
  inserir_produto :: "banco \<Rightarrow> dados_produtos \<Rightarrow> banco option"
  inserir_veiculo :: "banco \<Rightarrow> dados_transporte \<Rightarrow> banco option"
  abrir_arquivo :: "nome_arquivo \<Rightarrow> py_error option"
  json_dump_veiculo :: "(string \<times> json) list \<Rightarrow> py_error option"
  conexao :: bool

section \<open>Validation helpers\<close>

definition valor_nulo :: "string \<Rightarrow> string \<Rightarrow> mundo \<Rightarrow> bool res" where
  "valor_nulo campo nome_campo w =
     (if campo = [] then Ret True (py_print (CampoVazio nome_campo) w) else Ret False w)"

text \<open>The \<open>ValueError\<close> raised inside is caught in the same function.\<close>

definition validar_positivo :: "int \<Rightarrow> string \<Rightarrow> mundo \<Rightarrow> bool res" where
  "validar_positivo numero nome_campo w =
     (if numero \<le> 0 then Ret True (py_print NumeroInvalido w) else Ret False w)"

lemma valor_nulo_Ret: "valor_nulo c n w = Ret b w' \<Longrightarrow> entrada w' = entrada w"
  by (auto simp: valor_nulo_def split: if_splits)

lemma validar_positivo_Ret: "validar_positivo k n w = Ret b w' \<Longrightarrow> entrada w' = entrada w"
  by (auto simp: validar_positivo_def split: if_splits)

lemma py_input_len:
  "py_input q w = Ret l w' \<Longrightarrow> Suc (length (entrada w')) = length (entrada w)"
  by (drule py_input_Ret) simp

lemma valor_nulo_len:
  "valor_nulo c n w = Ret b w' \<Longrightarrow> length (entrada w') = length (entrada w)"
  by (drule valor_nulo_Ret) simp

lemma validar_positivo_len:
  "validar_positivo k n w = Ret b w' \<Longrightarrow> length (entrada w') = length (entrada w)"
  by (drule validar_positivo_Ret) simp

definition sim_nao :: "bool \<Rightarrow> string" where
  "sim_nao b = (if b then ''SIM'' else ''NAO'')"

section \<open>Registration\<close>

text \<open>
  The \<open>while True\<close> loop of \<open>dados_coletados_produtos\<close>: a \<open>continue\<close> and the handler of
  \<open>ValueError\<close> both start the questions again; the \<open>else\<close> branch leaves the loop, after
  which the dictionary is built.
\<close>

function coletar_produtos :: "ambiente \<Rightarrow> mundo \<Rightarrow> dados_produtos res" where
  "coletar_produtos env w =
     bind (py_input PNomeProduto w) (\<lambda>nome w1.
     bind (valor_nulo nome ''produto'' w1) (\<lambda>nulo w2.
       if nulo then coletar_produtos env w2 else
     bind (py_input POrigem w2) (\<lambda>orig w3.
     bind (valor_nulo orig ''origem'' w3) (\<lambda>nulo w4.
       if nulo then coletar_produtos env w4 else
     bind (py_input PDestino w4) (\<lambda>dest w5.
     bind (valor_nulo dest ''destino'' w5) (\<lambda>nulo w6.
       if nulo then coletar_produtos env w6 else
     bind (py_input PQuantidade w6) (\<lambda>s w7.
       case py_int s of
         None \<Rightarrow> coletar_produtos env (py_print NumeroInvalido w7)
       | Some quant \<Rightarrow>
     bind (validar_positivo quant ''quantidade'' w7) (\<lambda>invalido w8.
       if invalido then coletar_produtos env w8 else
     bind (py_input PTemperaturaMinima w8) (\<lambda>s w9.
       case py_float env s of
         None \<Rightarrow> coletar_produtos env (py_print NumeroInvalido w9)
       | Some tmin \<Rightarrow>
     bind (py_input PTemperaturaMaxima w9) (\<lambda>s w10.
       case py_float env s of
         None \<Rightarrow> coletar_produtos env (py_print NumeroInvalido w10)
       | Some tmax \<Rightarrow>
     bind (perguntar_sim_nao PRequerVentilacao w10) (\<lambda>vent w11.
     bind (perguntar_sim_nao PRequerProtecao w11) (\<lambda>prot w12.
       Ret \<lparr>ventilacao = sim_nao vent, protecao_solar = sim_nao prot,
            produto = nome, quantidade = quant, origem = orig, destino = dest,
            temperatura_minima = tmin, temperatura_maxima = tmax\<rparr> w12))))))))))))"
  by pat_completeness auto
termination
  by (relation "measure (\<lambda>(env, w). length (entrada w))")
     (auto dest!: py_input_len valor_nulo_len validar_positivo_len)

declare coletar_produtos.simps [simp del]

definition dados_coletados_produtos :: "ambiente \<Rightarrow> mundo \<Rightarrow> dados_produtos res" where
  "dados_coletados_produtos env w =
     bind (coletar_produtos env w) (\<lambda>dados w1.
       case inserir_produto env (tabelas w1) dados of
         Some b \<Rightarrow> Ret dados (py_print DadosGravados (w1\<lparr>tabelas := b\<rparr>))
       | None \<Rightarrow> Ret dados (py_print ErroInserir w1))"

function coletar_transporte :: "ambiente \<Rightarrow> mundo \<Rightarrow> dados_transporte res" where
  "coletar_transporte env w =
     bind (py_input PCapacidade w) (\<lambda>s w1.
       case py_int s of
         None \<Rightarrow> coletar_transporte env (py_print ValorInvalido w1)
       | Some cap \<Rightarrow>
     bind (py_input PTemperaturaTransporte w1) (\<lambda>s w2.
       case py_float env s of
         None \<Rightarrow> coletar_transporte env (py_print ValorInvalido w2)
       | Some temp \<Rightarrow>
     bind (perguntar_sim_nao PTemVentilacao w2) (\<lambda>vent w3.
     bind (perguntar_sim_nao PTemProtecao w3) (\<lambda>prot w4.
       Ret \<lparr>ventilacao = sim_nao vent, protecao_solar = sim_nao prot,
            capacidade = cap, temperatura = temp\<rparr> w4))))"
  by pat_completeness auto
termination
  by (relation "measure (\<lambda>(env, w). length (entrada w))") (auto dest!: py_input_len)

declare coletar_transporte.simps [simp del]

definition dados_coletados_transporte :: "ambiente \<Rightarrow> mundo \<Rightarrow> dados_transporte res" where
  "dados_coletados_transporte env w =
     bind (coletar_transporte env w) (\<lambda>dados w1.
       case inserir_veiculo env (tabelas w1) dados of
         Some b \<Rightarrow> Ret dados (py_print DadosGravados (w1\<lparr>tabelas := b\<rparr>))
       | None \<Rightarrow> Ret dados (py_print ErroInserir w1))"

section \<open>Listing\<close>

text \<open>
  \<open>fetchall\<close> gives a list, empty when the table is; the callers also test the result for
  \<open>None\<close>, so the two queries return an optional list here, which is never \<open>None\<close>.
\<close>

definition consultar_produtos :: "mundo \<Rightarrow> linha_produto list option" where
  "consultar_produtos w = Some (produtos (tabelas w))"

definition consultar_veiculos :: "mundo \<Rightarrow> linha_veiculo list option" where
  "consultar_veiculos w = Some (veiculos (tabelas w))"

definition listar_produtos :: "mundo \<Rightarrow> linha_produto list option res" where
  "listar_produtos w =
     (let w1 = py_print CabecalhoProdutos w
      in case consultar_produtos w1 of
           None \<Rightarrow> Ret None (py_print SemProdutos w1)
         | Some [] \<Rightarrow> Ret None (py_print SemProdutos w1)
         | Some ps \<Rightarrow> Ret (Some ps) (py_print Listados (py_print (TabelaProdutos ps) w1)))"

definition listar_veiculos :: "mundo \<Rightarrow> linha_veiculo list option res" where
  "listar_veiculos w =
     (let w1 = py_print CabecalhoVeiculos w
      in case consultar_veiculos w1 of
           None \<Rightarrow> Ret None (py_print SemVeiculos w1)
         | Some [] \<Rightarrow> Ret None (py_print SemVeiculos w1)
         | Some vs \<Rightarrow> Ret (Some vs) (py_print (TabelaVeiculos vs) w1))"

section \<open>\<open>comparar_veiculo\<close>\<close>

text \<open>
  The branch taken for an identifier found in the index of the product frame.  The
  frame is indexed by \<open>id_produto\<close>, so \<open>.loc\<close> yields one value per field when one row
  carries the identifier.  When several rows carry it, \<open>.loc\<close> yields a series; the
  chained temperature comparison then has no truth value and raises \<open>ValueError\<close> at
  the first vehicle, and with no vehicle the loop body is never reached.
\<close>

definition procurar_veiculo ::
  "linha_produto list \<Rightarrow> linha_veiculo list \<Rightarrow> int \<Rightarrow> mundo \<Rightarrow> bool option res" where
  "procurar_veiculo ps vs n w =
     (case filter (\<lambda>p. id_produto p = n) ps of
        [] \<Rightarrow> Raise KeyError w
      | [p] \<Rightarrow>
          (case percorrer_veiculos p vs of
             Some v \<Rightarrow> Ret (Some True) (py_print (VeiculoDisponivel v p) w)
           | None \<Rightarrow>
               bind (listar_veiculos (py_print (NenhumVeiculo [produto p]) w))
                 (\<lambda>_ w1. Ret (Some False) w1))
      | p # q # linhas \<Rightarrow>
          (if vs = [] then
             bind (listar_veiculos (py_print (NenhumVeiculo (map produto (p # q # linhas))) w))
               (\<lambda>_ w1. Ret (Some False) w1)
           else Raise ValueError w))"

text \<open>
  The whole operation.  The guard on the vehicles compares with \<open>None\<close> only.  An
  identifier that fails the test \<open>isdigit() and int(...) in index\<close> is reported and the
  function calls itself again; \<open>int\<close> is applied only after \<open>isdigit\<close> held.
\<close>

function comparar_veiculo :: "mundo \<Rightarrow> bool option res" where
  "comparar_veiculo w =
     (case consultar_veiculos w of
        None \<Rightarrow> Ret None (py_print SemVeiculosComparacao w)
      | Some vs \<Rightarrow>
          bind (listar_produtos w) (\<lambda>lista w1.
            case lista of
              None \<Rightarrow> Ret None (py_print SemProdutos w1)
            | Some ps \<Rightarrow>
                bind (py_input PIdProduto w1) (\<lambda>ident w2.
                  if str_isdigit ident then
                    (case py_int ident of
                       None \<Rightarrow> Raise ValueError w2
                     | Some n \<Rightarrow>
                         if n \<in> set (map id_produto ps) then procurar_veiculo ps vs n w2
                         else comparar_veiculo (py_print (ProdutoNaoEncontrado ident) w2))
                  else comparar_veiculo (py_print (ProdutoNaoEncontrado ident) w2))))"
  by pat_completeness auto

lemma listar_produtos_Ret:
  "listar_produtos w = Ret x w' \<Longrightarrow> entrada w' = entrada w"
  by (auto simp: listar_produtos_def consultar_produtos_def Let_def split: list.splits)

lemma listar_veiculos_Ret:
  "listar_veiculos w = Ret x w' \<Longrightarrow> entrada w' = entrada w"
  by (auto simp: listar_veiculos_def consultar_veiculos_def Let_def split: list.splits)

lemma listar_produtos_len:
  "listar_produtos w = Ret x w' \<Longrightarrow> length (entrada w') = length (entrada w)"
  by (drule listar_produtos_Ret) simp

termination comparar_veiculo
  by (relation "measure (\<lambda>w. length (entrada w))")
     (auto dest!: py_input_len listar_produtos_len)

declare comparar_veiculo.simps [simp del]

section \<open>Export\<close>

text \<open>
  The product export.  The file is opened before anything is written or printed: when
  \<open>open\<close> raises, the exception leaves the function, no file is written and the message
  that the data were saved is not printed.  The values of the dictionary are those of
  the fetched tuple, which \<open>json.dump\<close> accepts.
\<close>

definition salvar_dados_produtos_json :: "ambiente \<Rightarrow> mundo \<Rightarrow> unit res" where
  "salvar_dados_produtos_json env w =
     bind (listar_produtos w) (\<lambda>lista w1.
       case lista of
         None \<Rightarrow> Ret () (py_print SemProdutosJson w1)
       | Some [] \<Rightarrow> Ret () (py_print SemProdutosJson w1)
       | Some ps \<Rightarrow>
           bind (py_input PIdProdutoJson w1) (\<lambda>ident w2.
             if str_isdigit ident then
               (case py_int ident of
                  None \<Rightarrow> Raise ValueError w2
                | Some n \<Rightarrow>
                    if n \<in> set (map id_produto ps) then
                      (case filter (\<lambda>p. id_produto p = n) ps of
                         [] \<Rightarrow> Raise IndexError w2
                       | produto_escolhido # _ \<Rightarrow>
                           let dados_produto =
                                 [(''id_produto'', JInt (id_produto produto_escolhido)),
                                  (''produto'', JStr (produto produto_escolhido)),
                                  (''quantidade'', JInt (quantidade produto_escolhido)),
                                  (''origem'', JStr (origem produto_escolhido)),
                                  (''destino'', JStr (destino produto_escolhido)),
                                  (''temperatura_minima'',
                                     JFloat (temperatura_minima produto_escolhido)),
                                  (''temperatura_maxima'',
                                     JFloat (temperatura_maxima produto_escolhido)),
                                  (''ventilacao'', JStr (ventilacao produto_escolhido)),
                                  (''protecao_solar'', JStr (protecao_solar produto_escolhido))];
                               arquivo = ArquivoProduto (produto produto_escolhido)
                           in (case abrir_arquivo env arquivo of
                                 Some e \<Rightarrow> Raise e w2
                               | None \<Rightarrow>
                                   Ret ()
                                     (py_print (ProdutoSalvo (produto produto_escolhido))
                                        (w2\<lparr>arquivos :=
                                               arquivos w2 @ [(arquivo, dados_produto)]\<rparr>))))
                    else Ret () (py_print IdProdutoInvalido w2))
             else Ret () (py_print IdProdutoInvalido w2)))"

text \<open>
  The vehicle export opens its file in the same way and reads the row out of the data
  frame; whether \<open>json.dump\<close> accepts its values is the parameter \<open>json_dump_veiculo\<close>.
  \<open>arquivos\<close> lists the objects that were written completely.
\<close>

definition salvar_veiculo_json :: "ambiente \<Rightarrow> mundo \<Rightarrow> unit res" where
  "salvar_veiculo_json env w =
     bind (listar_veiculos w) (\<lambda>lista w1.
       case lista of
         None \<Rightarrow> Ret () (py_print SemVeiculosJson w1)
       | Some [] \<Rightarrow> Ret () (py_print SemVeiculosJson w1)
       | Some vs \<Rightarrow>
           bind (py_input PIdVeiculoJson w1) (\<lambda>ident w2.
             if str_isdigit ident then
               (case py_int ident of
                  None \<Rightarrow> Raise ValueError w2
                | Some n \<Rightarrow>
                    if n \<in> set (map id_veiculo vs) then
                      (case filter (\<lambda>v. id_veiculo v = n) vs of
                         [] \<Rightarrow> Raise KeyError w2
                       | veiculo_escolhido # _ \<Rightarrow>
                           let dados_veiculo =
                                 [(''id_veiculo'', JInt n),
                                  (''capacidade'', JInt (capacidade veiculo_escolhido)),
                                  (''temperatura'', JFloat (temperatura veiculo_escolhido)),
                                  (''ventilacao'', JStr (ventilacao veiculo_escolhido)),
                                  (''protecao_solar'', JStr (protecao_solar veiculo_escolhido))]
                           in (case abrir_arquivo env (ArquivoVeiculo n) of
                                 Some e \<Rightarrow> Raise e w2
                               | None \<Rightarrow>
                                   (case json_dump_veiculo env dados_veiculo of
                                      Some e \<Rightarrow> Raise e w2
                                    | None \<Rightarrow>
                                        Ret ()
                                          (py_print (VeiculoSalvo n)
                                             (w2\<lparr>arquivos :=
                                                    arquivos w2 @
                                                    [(ArquivoVeiculo n, dados_veiculo)]\<rparr>)))))
                    else Ret () (py_print IdVeiculoInvalido w2))
             else Ret () (py_print IdVeiculoInvalido w2)))"

text \<open>
  \<open>opcao_seis\<close>: the \<open>try\<close> covers the two calls as well, so a \<open>ValueError\<close> leaving one of
  them is reported as an invalid choice.
\<close>

definition opcao_seis :: "ambiente \<Rightarrow> mundo \<Rightarrow> unit res" where
  "opcao_seis env w =
     bind (py_input POpcaoSeis w) (\<lambda>s w1.
       case py_int s of
         None \<Rightarrow> Ret () (py_print EscolhaInvalida w1)
       | Some n \<Rightarrow>
           (case (if n = 1 then salvar_dados_produtos_json env w1
                  else if n = 2 then salvar_veiculo_json env w1
                  else Ret () w1) of
              Raise ValueError w2 \<Rightarrow> Ret () (py_print EscolhaInvalida w2)
            | r \<Rightarrow> r))"

section \<open>Menu, dispatcher and main program\<close>

text \<open>
  \<open>menu\<close>: the \<open>ValueError\<close> of \<open>int\<close> and the one raised for a number outside 1 to 7 are
  caught by the same handler, which starts the loop again.
\<close>

function menu :: "mundo \<Rightarrow> int res" where
  "menu w =
     bind (py_input PEscolha (py_print TextoMenu w)) (\<lambda>s w1.
       case py_int s of
         None \<Rightarrow> menu (py_print EscolhaInvalida w1)
       | Some escolha_menu \<Rightarrow>
           if escolha_menu \<notin> set [1, 2, 3, 4, 5, 6, 7] then menu (py_print EscolhaInvalida w1)
           else Ret escolha_menu w1)"
  by pat_completeness auto
termination
  by (relation "measure (\<lambda>w. length (entrada w))") (auto dest!: py_input_len)

declare menu.simps [simp del]

text \<open>\<open>sair\<close> closes the connection and stops the interpreter with \<open>exit(0)\<close>.\<close>

definition sair :: "mundo \<Rightarrow> unit res" where
  "sair w = Exit (py_print Saindo w)"

text \<open>The \<open>match\<close> statement in the body of the dispatcher loop.\<close>

definition executar_opcao :: "ambiente \<Rightarrow> int \<Rightarrow> mundo \<Rightarrow> unit res" where
  "executar_opcao env escolha w =
     (if escolha = 1 then bind (dados_coletados_produtos env w) (\<lambda>_ w1. Ret () w1)
      else if escolha = 2 then bind (dados_coletados_transporte env w) (\<lambda>_ w1. Ret () w1)
      else if escolha = 3 then bind (listar_produtos w) (\<lambda>_ w1. Ret () w1)
      else if escolha = 4 then bind (listar_veiculos w) (\<lambda>_ w1. Ret () w1)
      else if escolha = 5 then bind (comparar_veiculo w) (\<lambda>_ w1. Ret () w1)
      else if escolha = 6 then opcao_seis env w
      else if escolha = 7 then sair w
      else Ret () w)"

section \<open>No operation puts lines back into the input\<close>

text \<open>
  The dispatcher loop has no exit of its own, so its model needs a measure: every turn
  of the loop reads at least the line of the \<open>ENTER\<close> prompt, and no operation called
  from it makes the remaining input longer.
\<close>

lemma bind_RetD: "bind r f = Ret y w'' \<Longrightarrow> \<exists>x w'. r = Ret x w' \<and> f x w' = Ret y w''"
  by (cases r) simp_all

lemma bind_RaiseD:
  "bind r f = Raise e w'' \<Longrightarrow> r = Raise e w'' \<or> (\<exists>x w'. r = Ret x w' \<and> f x w' = Raise e w'')"
  by (cases r) simp_all

lemma py_input_Raise_len:
  "py_input q w = Raise e w' \<Longrightarrow> length (entrada w') = length (entrada w)"
  by (auto simp: py_input_def split: list.splits)

lemma perguntar_sim_nao_len:
  "perguntar_sim_nao q w = Ret b w' \<Longrightarrow> length (entrada w') \<le> length (entrada w)"
proof (induction q w rule: perguntar_sim_nao.induct)
  case (1 q w)
  from "1.prems" obtain l w1 where
    i: "py_input q w = Ret l w1" and
    r: "(let resposta = py_lower l
         in if resposta \<in> set respostas_aceitas then Ret (resposta = ''sim'') w1
            else perguntar_sim_nao q (py_print SimOuNao w1)) = Ret b w'"
    by (subst (asm) perguntar_sim_nao.simps) (blast dest: bind_RetD)
  show ?case
  proof (cases "py_lower l \<in> set respostas_aceitas")
    case True
    with r i show ?thesis by (auto dest: py_input_len)
  next
    case False
    with r have "perguntar_sim_nao q (py_print SimOuNao w1) = Ret b w'" by simp
    with "1.IH" [OF i refl False] have "length (entrada w') \<le> length (entrada w1)" by simp
    with i show ?thesis by (auto dest: py_input_len)
  qed
qed

lemma menu_len:
  "menu w = Ret e w' \<Longrightarrow> length (entrada w') \<le> length (entrada w)"
proof (induction "length (entrada w)" arbitrary: w rule: less_induct)
  case less
  note IH = less.hyps [rotated]
  from less.prems show ?case
    apply (subst (asm) menu.simps)
    apply (auto dest!: bind_RetD py_input_len split: option.splits if_splits)
    apply (drule IH; simp)+
    done
qed

lemma coletar_transporte_len:
  "coletar_transporte env w = Ret d w' \<Longrightarrow> length (entrada w') \<le> length (entrada w)"
proof (induction "length (entrada w)" arbitrary: w rule: less_induct)
  case less
  note IH = less.hyps [rotated]
  from less.prems show ?case
    apply (subst (asm) coletar_transporte.simps)
    apply (auto dest!: bind_RetD py_input_len perguntar_sim_nao_len split: option.splits)
    apply (drule IH; simp)+
    done
qed

lemma coletar_produtos_len:
  "coletar_produtos env w = Ret d w' \<Longrightarrow> length (entrada w') \<le> length (entrada w)"
proof (induction "length (entrada w)" arbitrary: w rule: less_induct)
  case less
  note IH = less.hyps [rotated]
  from less.prems show ?case
    apply (subst (asm) coletar_produtos.simps)
    apply (auto dest!: bind_RetD py_input_len perguntar_sim_nao_len valor_nulo_len
                       validar_positivo_len
                split: option.splits if_splits)
    apply (drule IH; simp)+
    done
qed

lemma dados_coletados_produtos_len:
  "dados_coletados_produtos env w = Ret d w' \<Longrightarrow> length (entrada w') \<le> length (entrada w)"
  by (auto simp: dados_coletados_produtos_def dest!: bind_RetD coletar_produtos_len
           split: option.splits)

lemma dados_coletados_transporte_len:
  "dados_coletados_transporte env w = Ret d w' \<Longrightarrow> length (entrada w') \<le> length (entrada w)"
  by (auto simp: dados_coletados_transporte_def dest!: bind_RetD coletar_transporte_len
           split: option.splits)

lemma listar_veiculos_len:
  "listar_veiculos w = Ret x w' \<Longrightarrow> length (entrada w') = length (entrada w)"
  by (drule listar_veiculos_Ret) simp

lemma listar_produtos_Raise: "listar_produtos w = Raise e w' \<Longrightarrow> False"
  by (auto simp: listar_produtos_def consultar_produtos_def Let_def split: list.splits)

lemma listar_veiculos_Raise: "listar_veiculos w = Raise e w' \<Longrightarrow> False"
  by (auto simp: listar_veiculos_def consultar_veiculos_def Let_def split: list.splits)

lemma procurar_veiculo_len:
  "procurar_veiculo ps vs n w = Ret r w' \<Longrightarrow> length (entrada w') \<le> length (entrada w)"
  by (auto simp: procurar_veiculo_def dest!: bind_RetD listar_veiculos_len
           split: list.splits option.splits if_splits)

lemma comparar_veiculo_len:
  "comparar_veiculo w = Ret r w' \<Longrightarrow> length (entrada w') \<le> length (entrada w)"
proof (induction "length (entrada w)" arbitrary: w rule: less_induct)
  case less
  note IH = less.hyps [rotated]
  from less.prems show ?case
    apply (subst (asm) comparar_veiculo.simps)
    apply (auto dest!: bind_RetD py_input_len listar_produtos_len procurar_veiculo_len
                split: option.splits if_splits)
    apply (drule IH; simp)+
    done
qed

lemma salvar_dados_produtos_json_len:
  "salvar_dados_produtos_json env w = Ret u w' \<Longrightarrow>
   length (entrada w') \<le> length (entrada w)"
  by (auto simp: salvar_dados_produtos_json_def Let_def
           dest!: bind_RetD py_input_len listar_produtos_len
           split: option.splits list.splits if_splits)

lemma salvar_dados_produtos_json_Raise_len:
  "salvar_dados_produtos_json env w = Raise e w' \<Longrightarrow>
   length (entrada w') \<le> length (entrada w)"
  by (auto simp: salvar_dados_produtos_json_def Let_def
           dest!: bind_RaiseD bind_RetD py_input_len py_input_Raise_len listar_produtos_len
                  listar_produtos_Raise
           split: option.splits list.splits if_splits)

lemma salvar_veiculo_json_len:
  "salvar_veiculo_json env w = Ret u w' \<Longrightarrow> length (entrada w') \<le> length (entrada w)"
  by (auto simp: salvar_veiculo_json_def Let_def
           dest!: bind_RetD py_input_len listar_veiculos_len
           split: option.splits list.splits if_splits)

lemma salvar_veiculo_json_Raise_len:
  "salvar_veiculo_json env w = Raise e w' \<Longrightarrow> length (entrada w') \<le> length (entrada w)"
  by (auto simp: salvar_veiculo_json_def Let_def
           dest!: bind_RaiseD bind_RetD py_input_len py_input_Raise_len listar_veiculos_len
                  listar_veiculos_Raise
           split: option.splits list.splits if_splits)

lemma opcao_seis_len:
  "opcao_seis env w = Ret u w' \<Longrightarrow> length (entrada w') \<le> length (entrada w)"
  by (auto simp: opcao_seis_def
           dest!: bind_RetD py_input_len salvar_dados_produtos_json_len
                  salvar_dados_produtos_json_Raise_len salvar_veiculo_json_len
                  salvar_veiculo_json_Raise_len
           split: option.splits res.splits py_error.splits if_splits)

lemma executar_opcao_len:
  "executar_opcao env escolha w = Ret u w' \<Longrightarrow> length (entrada w') \<le> length (entrada w)"
  by (auto simp: executar_opcao_def sair_def
           dest!: bind_RetD dados_coletados_produtos_len dados_coletados_transporte_len
                  listar_produtos_len listar_veiculos_len comparar_veiculo_len opcao_seis_len
           split: if_splits)

text \<open>
  \<open>opcao_escolhida\<close>: a \<open>while True\<close> with no \<open>break\<close> and no \<open>return\<close>; after the chosen
  operation it waits for \<open>ENTER\<close> and asks the menu for the next choice.
\<close>

function opcao_escolhida :: "ambiente \<Rightarrow> int \<Rightarrow> mundo \<Rightarrow> unit res" where
  "opcao_escolhida env escolha w =
     bind (executar_opcao env escolha w) (\<lambda>_ w1.
     bind (py_input PEnter w1) (\<lambda>_ w2.
     bind (menu w2) (\<lambda>escolha' w3.
       opcao_escolhida env escolha' w3)))"
  by pat_completeness auto
termination
  by (relation "measure (\<lambda>(env, escolha, w). length (entrada w))")
     (auto dest!: executar_opcao_len py_input_len menu_len)

declare opcao_escolhida.simps [simp del]

text \<open>
  The main program: with a connection it asks the menu once, runs the dispatcher, and
  has a call of \<open>dados_coletados_produtos\<close> after it, before the cursors are closed;
  without a connection it prints two messages.
\<close>

definition principal :: "ambiente \<Rightarrow> mundo \<Rightarrow> unit res" where
  "principal env w =
     (if conexao env then
        bind (menu w) (\<lambda>escolha w1.
        bind (opcao_escolhida env escolha w1) (\<lambda>_ w2.
        bind (dados_coletados_produtos env w2) (\<lambda>dados_produtos w3.
          Ret () w3)))
      else Ret () (py_print SemConexao (py_print ErroConexao w)))"

section \<open>Running the model\<close>

text \<open>
  The function argument of \<open>bind\<close> is simplified only once the first outcome is known, so
  that a defining equation of a loop can be unfolded on a concrete state.
\<close>

lemma bind_weak_cong [cong]: "r = r' \<Longrightarrow> bind r f = bind r' f"
  by simp

text \<open>The state at the start of a run: the lines that will be typed and the stored rows.\<close>

definition mundo_inicial :: "string list \<Rightarrow> banco \<Rightarrow> mundo" where
  "mundo_inicial linhas b = \<lparr>entrada = linhas, saida = [], tabelas = b, arquivos = []\<rparr>"

text \<open>
  One environment for the concrete runs below: \<open>float\<close> takes the integer literals, the
  store appends an inserted row under the next number, a file cannot be opened when the
  product's name holds a slash (the directory before the slash does not exist),
  \<open>json.dump\<close> rejects a row of a data frame, and the connection is open.
\<close>

definition ambiente_exemplo :: ambiente where
  "ambiente_exemplo =
     \<lparr>py_float = (\<lambda>s. map_option of_int (py_int s)),
      inserir_produto = (\<lambda>b d.
        Some (b\<lparr>produtos := produtos b @
          [\<lparr>ventilacao = ventilacao d, protecao_solar = protecao_solar d,
            produto = produto d, quantidade = quantidade d, origem = origem d,
            destino = destino d, temperatura_minima = temperatura_minima d,
            temperatura_maxima = temperatura_maxima d,
            id_produto = int (length (produtos b)) + 1\<rparr>]\<rparr>)),
      inserir_veiculo = (\<lambda>b d.
        Some (b\<lparr>veiculos := veiculos b @
          [\<lparr>ventilacao = ventilacao d, protecao_solar = protecao_solar d,
            capacidade = capacidade d, temperatura = temperatura d,
            id_veiculo = int (length (veiculos b)) + 1\<rparr>]\<rparr>)),
      abrir_arquivo = (\<lambda>f.
        case f of
          ArquivoProduto nome \<Rightarrow> if CHR ''/'' \<in> set nome then Some OSError else None
        | ArquivoVeiculo n \<Rightarrow> None),
      json_dump_veiculo = (\<lambda>d. Some TypeError),
      conexao = True\<rparr>"


definition soja :: linha_produto where
  "soja =
     \<lparr>ventilacao = ''SIM'', protecao_solar = ''NAO'', produto = ''soja'', quantidade = 100,
      origem = ''Sorriso'', destino = ''Santos'', temperatura_minima = 2,
      temperatura_maxima = 8, id_produto = 1\<rparr>"

text \<open>What \<open>listar_veiculos\<close> prints for a vehicle table.\<close>

definition listagem_veiculos :: "linha_veiculo list \<Rightarrow> msg list" where
  "listagem_veiculos vs =
     (if vs = [] then [CabecalhoVeiculos, SemVeiculos] else [CabecalhoVeiculos, TabelaVeiculos vs])"

text \<open>The messages of the rejected answers that precede an accepted one.\<close>

definition repeticoes :: "pergunta \<Rightarrow> string list \<Rightarrow> msg list" where
  "repeticoes q antes = concat (map (\<lambda>l. [Pergunta q, SimOuNao]) antes)"

section \<open>The compatibility loop returns the first vehicle that meets the four conditions\<close>

lemma compativel_quatro_condicoes:
  "sim_ou_nao (ventilacao p) \<Longrightarrow> sim_ou_nao (protecao_solar p) \<Longrightarrow>
   compativel p v = quatro_condicoes p v"
  by (auto simp: compativel_def quatro_condicoes_def sim_ou_nao_def capacidade_ok_def
        temperatura_ok_def ventilacao_ok_def protecao_solar_ok_def)

lemma percorrer_veiculos_Some:
  "percorrer_veiculos p vs = Some v \<Longrightarrow>
   \<exists>antes depois. vs = antes @ v # depois \<and> compativel p v \<and>
      list_all (\<lambda>u. \<not> compativel p u) antes"
proof (induction vs)
  case Nil
  then show ?case by simp
next
  case (Cons u us)
  show ?case
  proof (cases "compativel p u")
    case True
    with Cons.prems have "u = v" by simp
    with True have "u # us = [] @ v # us \<and> compativel p v \<and> list_all (\<lambda>u. \<not> compativel p u) []"
      by simp
    then show ?thesis by blast
  next
    case False
    with Cons.prems have "percorrer_veiculos p us = Some v" by simp
    from Cons.IH [OF this] obtain antes depois where
      "us = antes @ v # depois" "compativel p v" "list_all (\<lambda>u. \<not> compativel p u) antes"
      by blast
    with False have "u # us = (u # antes) @ v # depois \<and> compativel p v \<and>
        list_all (\<lambda>u. \<not> compativel p u) (u # antes)"
      by simp
    then show ?thesis by blast
  qed
qed

lemma percorrer_veiculos_None:
  "percorrer_veiculos p vs = None \<longleftrightarrow> list_all (\<lambda>u. \<not> compativel p u) vs"
  by (induction vs) auto

text \<open>
  Claim C1.  For a product row whose two flags are the stored literals \<open>'SIM'\<close> or \<open>'NAO'\<close>
  (how the store holds the booleans of a product) and any list of vehicle rows: when the
  loop of \<open>comparar_veiculo\<close> yields a vehicle, that vehicle is an element of the list, it
  meets the four conditions (capacity at least the quantity, temperature within the
  closed range, ventilation equal, sun protection equal), and no vehicle before it in
  the list meets them; and the loop yields no vehicle if and only if no vehicle of the
  list meets the four conditions.
\<close>

theorem percorrer_veiculos_primeiro:
  assumes "sim_ou_nao (ventilacao p)" and "sim_ou_nao (protecao_solar p)"
  shows "(\<forall>v. percorrer_veiculos p vs = Some v \<longrightarrow>
            (\<exists>antes depois. vs = antes @ v # depois \<and> quatro_condicoes p v \<and>
               list_all (\<lambda>u. \<not> quatro_condicoes p u) antes)) \<and>
         (percorrer_veiculos p vs = None \<longleftrightarrow> list_all (\<lambda>u. \<not> quatro_condicoes p u) vs)"
proof -
  have eq: "compativel p = quatro_condicoes p"
    using assms by (auto simp: compativel_quatro_condicoes)
  show ?thesis
    using percorrer_veiculos_Some [of p vs] percorrer_veiculos_None [of p vs]
    unfolding eq by blast
qed

theorem percorrer_veiculos_primeiro_witness:
  "sim_ou_nao ''NAO'' \<and> sim_ou_nao ''SIM'' \<and>
   percorrer_veiculos
     \<lparr>ventilacao = ''NAO'', protecao_solar = ''SIM'', produto = ''milho'', quantidade = 30,
      origem = ''Sorriso'', destino = ''Santos'', temperatura_minima = 10,
      temperatura_maxima = 25, id_produto = 4\<rparr>
     [\<lparr>ventilacao = ''NAO'', protecao_solar = ''SIM'', capacidade = 40, temperatura = 30,
       id_veiculo = 1\<rparr>,
      \<lparr>ventilacao = ''NAO'', protecao_solar = ''SIM'', capacidade = 40, temperatura = 20,
       id_veiculo = 2\<rparr>,
      \<lparr>ventilacao = ''NAO'', protecao_solar = ''SIM'', capacidade = 90, temperatura = 15,
       id_veiculo = 3\<rparr>]
   = Some \<lparr>ventilacao = ''NAO'', protecao_solar = ''SIM'', capacidade = 40, temperatura = 20,
       id_veiculo = 2\<rparr> \<and>
   \<not> quatro_condicoes
     \<lparr>ventilacao = ''NAO'', protecao_solar = ''SIM'', produto = ''milho'', quantidade = 30,
      origem = ''Sorriso'', destino = ''Santos'', temperatura_minima = 10,
      temperatura_maxima = 25, id_produto = 4\<rparr>
     \<lparr>ventilacao = ''NAO'', protecao_solar = ''SIM'', capacidade = 40, temperatura = 30,
       id_veiculo = 1\<rparr>"
  using percorrer_veiculos_primeiro
    [of "\<lparr>ventilacao = ''NAO'', protecao_solar = ''SIM'', produto = ''milho'', quantidade = 30,
      origem = ''Sorriso'', destino = ''Santos'', temperatura_minima = 10,
      temperatura_maxima = 25, id_produto = 4\<rparr>"
     "[\<lparr>ventilacao = ''NAO'', protecao_solar = ''SIM'', capacidade = 40, temperatura = 30,
       id_veiculo = 1\<rparr>,
      \<lparr>ventilacao = ''NAO'', protecao_solar = ''SIM'', capacidade = 40, temperatura = 20,
       id_veiculo = 2\<rparr>,
      \<lparr>ventilacao = ''NAO'', protecao_solar = ''SIM'', capacidade = 90, temperatura = 15,
       id_veiculo = 3\<rparr>]"]
  by (simp add: sim_ou_nao_def compativel_def capacidade_ok_def temperatura_ok_def
        ventilacao_ok_def protecao_solar_ok_def quatro_condicoes_def)

text \<open>
  Claim C5.  For the product with quantity 100, temperature range 2 to 8, ventilation
  required and no sun protection, and the two vehicles of the specification's example
  (the first with capacity 50 and any other attributes, the second with capacity 150,
  temperature 5, ventilation and no sun protection), the loop yields the second vehicle.
\<close>

theorem exemplo_segundo_veiculo:
  "percorrer_veiculos
     \<lparr>ventilacao = ''SIM'', protecao_solar = ''NAO'', produto = nome, quantidade = 100,
      origem = orig, destino = dest, temperatura_minima = 2, temperatura_maxima = 8,
      id_produto = i\<rparr>
     [\<lparr>ventilacao = vent, protecao_solar = prot, capacidade = 50, temperatura = temp,
       id_veiculo = j\<rparr>,
      \<lparr>ventilacao = ''SIM'', protecao_solar = ''NAO'', capacidade = 150, temperatura = 5,
       id_veiculo = k\<rparr>]
   = Some \<lparr>ventilacao = ''SIM'', protecao_solar = ''NAO'', capacidade = 150, temperatura = 5,
       id_veiculo = k\<rparr>"
  by (simp add: compativel_def capacidade_ok_def temperatura_ok_def ventilacao_ok_def
        protecao_solar_ok_def)

text \<open>
  Claim C7.  A product whose minimum temperature is strictly greater than its maximum
  has no compatible vehicle: for every list of vehicles the loop yields none.
\<close>

theorem faixa_vazia_sem_veiculo:
  "temperatura_maxima p < temperatura_minima p \<Longrightarrow> percorrer_veiculos p vs = None"
  by (induction vs) (auto simp: compativel_def temperatura_ok_def)

theorem faixa_vazia_sem_veiculo_witness:
  "temperatura_maxima
     \<lparr>ventilacao = ''SIM'', protecao_solar = ''SIM'', produto = ''alface'', quantidade = 1,
      origem = ''Ibiuna'', destino = ''Campinas'', temperatura_minima = 9,
      temperatura_maxima = 4, id_produto = 7\<rparr>
   < temperatura_minima
     \<lparr>ventilacao = ''SIM'', protecao_solar = ''SIM'', produto = ''alface'', quantidade = 1,
      origem = ''Ibiuna'', destino = ''Campinas'', temperatura_minima = 9,
      temperatura_maxima = 4, id_produto = 7\<rparr> \<and>
   percorrer_veiculos
     \<lparr>ventilacao = ''SIM'', protecao_solar = ''SIM'', produto = ''alface'', quantidade = 1,
      origem = ''Ibiuna'', destino = ''Campinas'', temperatura_minima = 9,
      temperatura_maxima = 4, id_produto = 7\<rparr>
     [\<lparr>ventilacao = ''SIM'', protecao_solar = ''SIM'', capacidade = 500, temperatura = 9,
       id_veiculo = 1\<rparr>,
      \<lparr>ventilacao = ''SIM'', protecao_solar = ''SIM'', capacidade = 500, temperatura = 4,
       id_veiculo = 2\<rparr>,
      \<lparr>ventilacao = ''SIM'', protecao_solar = ''SIM'', capacidade = 500, temperatura = 6,
       id_veiculo = 3\<rparr>] = None"
  using faixa_vazia_sem_veiculo
    [of "\<lparr>ventilacao = ''SIM'', protecao_solar = ''SIM'', produto = ''alface'', quantidade = 1,
      origem = ''Ibiuna'', destino = ''Campinas'', temperatura_minima = 9,
      temperatura_maxima = 4, id_produto = 7\<rparr>"
     "[\<lparr>ventilacao = ''SIM'', protecao_solar = ''SIM'', capacidade = 500, temperatura = 9,
       id_veiculo = 1\<rparr>,
      \<lparr>ventilacao = ''SIM'', protecao_solar = ''SIM'', capacidade = 500, temperatura = 4,
       id_veiculo = 2\<rparr>,
      \<lparr>ventilacao = ''SIM'', protecao_solar = ''SIM'', capacidade = 500, temperatura = 6,
       id_veiculo = 3\<rparr>]"]
  by simp

text \<open>
  Nothing keeps a registered product from having its minimum above its maximum.  For
  such a product a vehicle can pass the capacity, ventilation and sun-protection tests
  and have exactly the minimum temperature, and still be rejected: with minimum 10 and
  maximum 5 the test \<open>10 \<le> 10 \<le> 5\<close> fails.
\<close>

theorem limite_com_faixa_invertida:
  "capacidade_ok
     \<lparr>ventilacao = ''SIM'', protecao_solar = ''NAO'', produto = ''uva'', quantidade = 10,
      origem = ''Petrolina'', destino = ''Recife'', temperatura_minima = 10,
      temperatura_maxima = 5, id_produto = 1\<rparr>
     \<lparr>ventilacao = ''SIM'', protecao_solar = ''NAO'', capacidade = 20, temperatura = 10,
      id_veiculo = 1\<rparr> \<and>
   ventilacao_ok
     \<lparr>ventilacao = ''SIM'', protecao_solar = ''NAO'', produto = ''uva'', quantidade = 10,
      origem = ''Petrolina'', destino = ''Recife'', temperatura_minima = 10,
      temperatura_maxima = 5, id_produto = 1\<rparr>
     \<lparr>ventilacao = ''SIM'', protecao_solar = ''NAO'', capacidade = 20, temperatura = 10,
      id_veiculo = 1\<rparr> \<and>
   protecao_solar_ok
     \<lparr>ventilacao = ''SIM'', protecao_solar = ''NAO'', produto = ''uva'', quantidade = 10,
      origem = ''Petrolina'', destino = ''Recife'', temperatura_minima = 10,
      temperatura_maxima = 5, id_produto = 1\<rparr>
     \<lparr>ventilacao = ''SIM'', protecao_solar = ''NAO'', capacidade = 20, temperatura = 10,
      id_veiculo = 1\<rparr> \<and>
   temperatura
     \<lparr>ventilacao = ''SIM'', protecao_solar = ''NAO'', capacidade = 20, temperatura = 10,
      id_veiculo = 1\<rparr>
   = temperatura_minima
     \<lparr>ventilacao = ''SIM'', protecao_solar = ''NAO'', produto = ''uva'', quantidade = 10,
      origem = ''Petrolina'', destino = ''Recife'', temperatura_minima = 10,
      temperatura_maxima = 5, id_produto = 1\<rparr> \<and>
   \<not> compativel
     \<lparr>ventilacao = ''SIM'', protecao_solar = ''NAO'', produto = ''uva'', quantidade = 10,
      origem = ''Petrolina'', destino = ''Recife'', temperatura_minima = 10,
      temperatura_maxima = 5, id_produto = 1\<rparr>
     \<lparr>ventilacao = ''SIM'', protecao_solar = ''NAO'', capacidade = 20, temperatura = 10,
      id_veiculo = 1\<rparr> \<and>
   percorrer_veiculos
     \<lparr>ventilacao = ''SIM'', protecao_solar = ''NAO'', produto = ''uva'', quantidade = 10,
      origem = ''Petrolina'', destino = ''Recife'', temperatura_minima = 10,
      temperatura_maxima = 5, id_produto = 1\<rparr>
     [\<lparr>ventilacao = ''SIM'', protecao_solar = ''NAO'', capacidade = 20, temperatura = 10,
      id_veiculo = 1\<rparr>] = None"
  by (simp add: compativel_def capacidade_ok_def temperatura_ok_def ventilacao_ok_def
        protecao_solar_ok_def)

text \<open>
  Claim C4, amended.  The range is closed at both ends: for a product whose minimum
  temperature is at most its maximum, a vehicle that passes the capacity, ventilation
  and sun-protection tests and whose temperature equals the minimum or equals the
  maximum is judged compatible, and the loop stops at it when it comes first.  (For a
  product whose minimum exceeds its maximum the preceding theorem shows a vehicle at
  the minimum that is rejected.)
\<close>

theorem limites_inclusivos:
  assumes "temperatura_minima p \<le> temperatura_maxima p"
    and "capacidade_ok p w" and "ventilacao_ok p w" and "protecao_solar_ok p w"
    and "temperatura w = temperatura_minima p \<or> temperatura w = temperatura_maxima p"
  shows "compativel p w \<and> percorrer_veiculos p (w # vs) = Some w"
  using assms by (auto simp: compativel_def temperatura_ok_def)

theorem limites_inclusivos_witness:
  "compativel soja
     \<lparr>ventilacao = ''SIM'', protecao_solar = ''NAO'', capacidade = 100, temperatura = 8,
      id_veiculo = 3\<rparr> \<and>
   percorrer_veiculos soja
     [\<lparr>ventilacao = ''SIM'', protecao_solar = ''NAO'', capacidade = 100, temperatura = 8,
       id_veiculo = 3\<rparr>,
      \<lparr>ventilacao = ''SIM'', protecao_solar = ''NAO'', capacidade = 200, temperatura = 5,
       id_veiculo = 4\<rparr>]
   = Some \<lparr>ventilacao = ''SIM'', protecao_solar = ''NAO'', capacidade = 100, temperatura = 8,
       id_veiculo = 3\<rparr>"
  using limites_inclusivos
    [of soja
      "\<lparr>ventilacao = ''SIM'', protecao_solar = ''NAO'', capacidade = 100, temperatura = 8,
        id_veiculo = 3\<rparr>"
      "[\<lparr>ventilacao = ''SIM'', protecao_solar = ''NAO'', capacidade = 200, temperatura = 5,
        id_veiculo = 4\<rparr>]"]
  by (simp add: soja_def capacidade_ok_def ventilacao_ok_def protecao_solar_ok_def)

section \<open>The yes/no prompt\<close>

lemma perguntar_vazia:
  "entrada w = [] \<Longrightarrow> perguntar_sim_nao q w = Raise EOFError (py_print (Pergunta q) w)"
  by (subst perguntar_sim_nao.simps) (simp add: py_input_def)

lemma perguntar_aceita:
  "entrada w = l # ls \<Longrightarrow> aceita l \<Longrightarrow>
   perguntar_sim_nao q w = Ret (py_lower l = ''sim'') (py_print (Pergunta q) (w\<lparr>entrada := ls\<rparr>))"
  by (subst perguntar_sim_nao.simps) (simp add: py_input_def aceita_def)

lemma perguntar_recusa:
  "entrada w = l # ls \<Longrightarrow> \<not> aceita l \<Longrightarrow>
   perguntar_sim_nao q w =
     perguntar_sim_nao q (py_print SimOuNao (py_print (Pergunta q) (w\<lparr>entrada := ls\<rparr>)))"
  by (subst perguntar_sim_nao.simps) (simp add: py_input_def aceita_def)

lemma perguntar_ate_aceitar:
  "entrada w = antes @ a # resto \<Longrightarrow> list_all (\<lambda>l. \<not> aceita l) antes \<Longrightarrow> aceita a \<Longrightarrow>
   perguntar_sim_nao q w =
     Ret (py_lower a = ''sim'')
       (w\<lparr>entrada := resto, saida := saida w @ repeticoes q antes @ [Pergunta q]\<rparr>)"
proof (induction antes arbitrary: w)
  case Nil
  then show ?case
    by (simp add: perguntar_aceita py_print_def repeticoes_def)
next
  case (Cons l ls)
  let ?w1 = "py_print SimOuNao (py_print (Pergunta q) (w\<lparr>entrada := ls @ a # resto\<rparr>))"
  have "perguntar_sim_nao q w = perguntar_sim_nao q ?w1"
    using Cons.prems by (simp add: perguntar_recusa)
  also have "\<dots> = Ret (py_lower a = ''sim'')
       (?w1\<lparr>entrada := resto, saida := saida ?w1 @ repeticoes q ls @ [Pergunta q]\<rparr>)"
    using Cons.prems by (intro Cons.IH) simp_all
  finally show ?case
    by (simp add: py_print_def repeticoes_def)
qed

lemma perguntar_sem_aceitar:
  "list_all (\<lambda>l. \<not> aceita l) (entrada w) \<Longrightarrow>
   perguntar_sim_nao q w =
     Raise EOFError
       (w\<lparr>entrada := [], saida := saida w @ repeticoes q (entrada w) @ [Pergunta q]\<rparr>)"
proof (induction "entrada w" arbitrary: w)
  case Nil
  then show ?case
    by (simp add: perguntar_vazia py_print_def repeticoes_def)
next
  case (Cons l ls)
  let ?w1 = "py_print SimOuNao (py_print (Pergunta q) (w\<lparr>entrada := ls\<rparr>))"
  have e: "entrada w = l # ls" using Cons.hyps(2) by simp
  have "perguntar_sim_nao q w = perguntar_sim_nao q ?w1"
    using Cons.prems e by (simp add: perguntar_recusa)
  also have "\<dots> = Raise EOFError
      (?w1\<lparr>entrada := [], saida := saida ?w1 @ repeticoes q (entrada ?w1) @ [Pergunta q]\<rparr>)"
    using Cons.prems e by (intro Cons.hyps(1)) simp_all
  finally show ?case using e
    by (simp add: py_print_def repeticoes_def)
qed

lemma aceita_Nao: "aceita [CHR ''N'', CHR 0xC3, CHR ''o'']"
  by code_simp

lemma recusa_talvez: "\<not> aceita ''talvez''"
  by code_simp

lemma recusa_s: "\<not> aceita ''s''"
  by code_simp

lemma lower_Nao: "py_lower [CHR ''N'', CHR 0xC3, CHR ''o''] = [CHR ''n'', CHR 0xE3, CHR ''o'']"
  by code_simp

text \<open>
  The answer \<open>SIM\<close> in capitals is none of the three words of the list, yet the prompt
  returns \<open>True\<close> at it and leaves the next line, \<open>nao\<close>, unread: the answer is
  lower-cased before it is looked up.
\<close>

theorem perguntar_sim_nao_aceita_maiusculas:
  "''SIM'' \<notin> set respostas_aceitas \<and>
   perguntar_sim_nao PRequerVentilacao
     (mundo_inicial [''SIM'', ''nao''] \<lparr>produtos = [], veiculos = []\<rparr>)
   = Ret True
      \<lparr>entrada = [''nao''], saida = [Pergunta PRequerVentilacao],
       tabelas = \<lparr>produtos = [], veiculos = []\<rparr>, arquivos = []\<rparr>"
  by code_simp

text \<open>
  Claim C9, amended.  The prompt lower-cases each answer and accepts it exactly when the
  lower-cased text is one of the three words (so the words are accepted in any mix of
  capitals and small letters).  It returns at the first accepted answer of the input,
  with \<open>True\<close> exactly when that answer lower-cased is the affirmative word, having
  printed the reminder and asked again once for each answer before it; the lines after
  the accepted answer stay unread.  As long as no accepted answer comes it does not
  return: on an input without one it asks after every line and ends only with the
  end-of-input error.
\<close>

theorem perguntar_sim_nao_primeira_aceita:
  "(entrada w = antes @ a # resto \<and> list_all (\<lambda>l. \<not> aceita l) antes \<and> aceita a \<longrightarrow>
      perguntar_sim_nao q w =
        Ret (py_lower a = ''sim'')
          (w\<lparr>entrada := resto, saida := saida w @ repeticoes q antes @ [Pergunta q]\<rparr>)) \<and>
   (list_all (\<lambda>l. \<not> aceita l) (entrada w) \<longrightarrow>
      perguntar_sim_nao q w =
        Raise EOFError
          (w\<lparr>entrada := [], saida := saida w @ repeticoes q (entrada w) @ [Pergunta q]\<rparr>))"
  using perguntar_ate_aceitar [of w antes a resto q] perguntar_sem_aceitar [of w q]
  by blast

theorem perguntar_sim_nao_primeira_aceita_witness:
  "perguntar_sim_nao PRequerProtecao
     (mundo_inicial [''talvez'', ''s'', [CHR ''N'', CHR 0xC3, CHR ''o''], ''sim'']
        \<lparr>produtos = [], veiculos = []\<rparr>)
   = Ret False
      \<lparr>entrada = [''sim''],
       saida = [Pergunta PRequerProtecao, SimOuNao, Pergunta PRequerProtecao, SimOuNao,
                Pergunta PRequerProtecao],
       tabelas = \<lparr>produtos = [], veiculos = []\<rparr>, arquivos = []\<rparr> \<and>
   perguntar_sim_nao PRequerProtecao
     (mundo_inicial [''talvez'', ''s''] \<lparr>produtos = [], veiculos = []\<rparr>)
   = Raise EOFError
      \<lparr>entrada = [],
       saida = [Pergunta PRequerProtecao, SimOuNao, Pergunta PRequerProtecao, SimOuNao,
                Pergunta PRequerProtecao],
       tabelas = \<lparr>produtos = [], veiculos = []\<rparr>, arquivos = []\<rparr>"
  using perguntar_sim_nao_primeira_aceita
     [of "mundo_inicial [''talvez'', ''s'', [CHR ''N'', CHR 0xC3, CHR ''o''], ''sim'']
            \<lparr>produtos = [], veiculos = []\<rparr>"
         "[''talvez'', ''s'']" "[CHR ''N'', CHR 0xC3, CHR ''o'']" "[''sim'']" PRequerProtecao]
    perguntar_sim_nao_primeira_aceita
     [of "mundo_inicial [''talvez'', ''s''] \<lparr>produtos = [], veiculos = []\<rparr>"
         "[]" "[]" "[]" PRequerProtecao]
    aceita_Nao recusa_talvez recusa_s lower_Nao
  by (simp add: mundo_inicial_def repeticoes_def)

section \<open>Export of a product\<close>

lemma filtro_membro: "filter (\<lambda>p. f p = n) xs = y # ys \<Longrightarrow> n \<in> f ` set xs"
proof -
  assume "filter (\<lambda>p. f p = n) xs = y # ys"
  then have "y \<in> set (filter (\<lambda>p. f p = n) xs)" by simp
  then show ?thesis by auto
qed

lemma listar_produtos_nao_vazia:
  "produtos (tabelas w) \<noteq> [] \<Longrightarrow>
   listar_produtos w =
     Ret (Some (produtos (tabelas w)))
       (py_print Listados (py_print (TabelaProdutos (produtos (tabelas w)))
          (py_print CabecalhoProdutos w)))"
  by (cases "produtos (tabelas w)") (simp_all add: listar_produtos_def consultar_produtos_def)


lemma isdigit_1: "str_isdigit ''1''"
  by (simp add: str_isdigit_def caractere_digito_def digito_decimal_def)

lemma int_1: "py_int ''1'' = Some 1"
  by (simp add: py_int_def espaco_int_def literal_decimal_def digito_decimal_def
        valor_digito_def int_max_str_digits_def)




section \<open>The compatibility operation for a stored product\<close>

lemma listar_veiculos_eq:
  "listar_veiculos w =
     Ret (if veiculos (tabelas w) = [] then None else Some (veiculos (tabelas w)))
       (w\<lparr>saida := saida w @ listagem_veiculos (veiculos (tabelas w))\<rparr>)"
  by (cases "veiculos (tabelas w)")
     (simp_all add: listar_veiculos_def consultar_veiculos_def listagem_veiculos_def py_print_def)

text \<open>
  When the line typed is a digit string whose value is the identifier of exactly one
  stored product \<open>p\<close>, the operation reports what the loop found for \<open>p\<close> among the stored
  vehicles: it lists the products, asks for the identifier, and then either prints the
  vehicle the loop stopped at and returns \<open>True\<close>, or prints that no vehicle meets the
  conditions for \<open>p\<close>, lists the vehicles and returns \<open>False\<close>.
\<close>

theorem comparar_veiculo_id_conhecido:
  assumes "entrada w = ident # resto" and "str_isdigit ident" and "py_int ident = Some n"
    and "filter (\<lambda>p. id_produto p = n) (produtos (tabelas w)) = [p]"
  shows "comparar_veiculo w =
     (case percorrer_veiculos p (veiculos (tabelas w)) of
        Some v \<Rightarrow>
          Ret (Some True)
            (w\<lparr>entrada := resto,
               saida := saida w @
                 [CabecalhoProdutos, TabelaProdutos (produtos (tabelas w)), Listados,
                  Pergunta PIdProduto, VeiculoDisponivel v p]\<rparr>)
      | None \<Rightarrow>
          Ret (Some False)
            (w\<lparr>entrada := resto,
               saida := saida w @
                 [CabecalhoProdutos, TabelaProdutos (produtos (tabelas w)), Listados,
                  Pergunta PIdProduto, NenhumVeiculo [produto p]] @
                 listagem_veiculos (veiculos (tabelas w))\<rparr>))"
proof -
  from assms(4) have ne: "produtos (tabelas w) \<noteq> []" by auto
  from assms(4) have m: "n \<in> id_produto ` set (produtos (tabelas w))"
    by (rule filtro_membro)
  show ?thesis
    using assms ne m
    by (subst comparar_veiculo.simps)
       (simp add: consultar_veiculos_def listar_produtos_nao_vazia py_input_def
          procurar_veiculo_def listar_veiculos_eq py_print_def split: option.splits)
qed

theorem comparar_veiculo_id_conhecido_witness:
  "comparar_veiculo
     (mundo_inicial [''1'']
        \<lparr>produtos = [soja],
         veiculos =
           [\<lparr>ventilacao = ''SIM'', protecao_solar = ''NAO'', capacidade = 50, temperatura = 5,
             id_veiculo = 1\<rparr>,
            \<lparr>ventilacao = ''SIM'', protecao_solar = ''NAO'', capacidade = 150, temperatura = 5,
             id_veiculo = 2\<rparr>]\<rparr>)
   = Ret (Some True)
      \<lparr>entrada = [],
       saida = [CabecalhoProdutos, TabelaProdutos [soja], Listados, Pergunta PIdProduto,
                VeiculoDisponivel
                  \<lparr>ventilacao = ''SIM'', protecao_solar = ''NAO'', capacidade = 150,
                   temperatura = 5, id_veiculo = 2\<rparr> soja],
       tabelas =
         \<lparr>produtos = [soja],
          veiculos =
           [\<lparr>ventilacao = ''SIM'', protecao_solar = ''NAO'', capacidade = 50, temperatura = 5,
             id_veiculo = 1\<rparr>,
            \<lparr>ventilacao = ''SIM'', protecao_solar = ''NAO'', capacidade = 150, temperatura = 5,
             id_veiculo = 2\<rparr>]\<rparr>,
       arquivos = []\<rparr>"
  using comparar_veiculo_id_conhecido
    [of "mundo_inicial [''1'']
        \<lparr>produtos = [soja],
         veiculos =
           [\<lparr>ventilacao = ''SIM'', protecao_solar = ''NAO'', capacidade = 50, temperatura = 5,
             id_veiculo = 1\<rparr>,
            \<lparr>ventilacao = ''SIM'', protecao_solar = ''NAO'', capacidade = 150, temperatura = 5,
             id_veiculo = 2\<rparr>]\<rparr>" "''1''" "[]" 1 soja]
    isdigit_1 int_1
  by (simp add: mundo_inicial_def soja_def compativel_def capacidade_ok_def temperatura_ok_def
        ventilacao_ok_def protecao_solar_ok_def)

section \<open>The compatibility operation on an empty vehicle table\<close>

text \<open>
  Claim C2.  With no vehicle registered the query returns the empty list, not \<open>None\<close>, so
  the guard that prints the message about there being no vehicles to compare is not
  taken.  With one product stored and its identifier typed, the run lists the products,
  asks for the identifier, falls through the loop over no vehicles, prints the ordinary
  message that no vehicle meets the conditions, lists the (empty) vehicle table and
  returns \<open>False\<close>.
\<close>

theorem comparar_veiculo_sem_veiculos:
  "consultar_veiculos (mundo_inicial [''1''] \<lparr>produtos = [soja], veiculos = []\<rparr>) = Some [] \<and>
   comparar_veiculo (mundo_inicial [''1''] \<lparr>produtos = [soja], veiculos = []\<rparr>)
   = Ret (Some False)
      \<lparr>entrada = [],
       saida = [CabecalhoProdutos, TabelaProdutos [soja], Listados, Pergunta PIdProduto,
                NenhumVeiculo [''soja''], CabecalhoVeiculos, SemVeiculos],
       tabelas = \<lparr>produtos = [soja], veiculos = []\<rparr>, arquivos = []\<rparr>"
  by code_simp

section \<open>The compatibility operation on an unknown identifier\<close>

text \<open>
  Claim C3.  The superscript two passes \<open>isdigit\<close> and is then handed to \<open>int\<close>, which
  raises \<open>ValueError\<close>: typed at the identifier prompt it ends the operation with that
  exception, after the listing and the prompt, with no report that the product was not
  found and without asking again (the next line stays unread).
\<close>

theorem comparar_veiculo_digito_sobrescrito:
  "str_isdigit [CHR 0xB2] \<and> py_int [CHR 0xB2] = None \<and>
   comparar_veiculo (mundo_inicial [[CHR 0xB2], ''1''] \<lparr>produtos = [soja], veiculos = []\<rparr>)
   = Raise ValueError
      \<lparr>entrada = [''1''],
       saida = [CabecalhoProdutos, TabelaProdutos [soja], Listados, Pergunta PIdProduto],
       tabelas = \<lparr>produtos = [soja], veiculos = []\<rparr>, arquivos = []\<rparr>"
  by code_simp

text \<open>
  For every identifier of no stored product on which \<open>int\<close> is not called or does not
  raise, the operation does what the specification says.  When products are stored and
  the line typed is not a digit string, or is one whose value \<open>int\<close> delivers and no
  stored product carries, the operation
  lists the products, asks, reports that the product was not found, and starts again on
  the remaining input: the listing and the prompt are repeated, and the message of the
  fall-through after the loop is not among what this round printed.
\<close>

theorem comparar_veiculo_id_desconhecido:
  assumes "produtos (tabelas w) \<noteq> []" and "entrada w = ident # resto"
    and "\<not> str_isdigit ident \<or>
         (\<exists>n. py_int ident = Some n \<and> n \<notin> set (map id_produto (produtos (tabelas w))))"
  shows "comparar_veiculo w =
     comparar_veiculo
       (w\<lparr>entrada := resto,
          saida := saida w @
            [CabecalhoProdutos, TabelaProdutos (produtos (tabelas w)), Listados,
             Pergunta PIdProduto, ProdutoNaoEncontrado ident]\<rparr>)"
  using assms
  by (subst comparar_veiculo.simps)
     (auto simp: consultar_veiculos_def listar_produtos_nao_vazia py_input_def py_print_def)

lemma nao_isdigit_abc: "\<not> str_isdigit ''abc''"
  by (simp add: str_isdigit_def caractere_digito_def digito_decimal_def)

lemma comparar_veiculo_fim_da_entrada:
  "comparar_veiculo
     \<lparr>entrada = [],
      saida = [CabecalhoProdutos, TabelaProdutos [soja], Listados, Pergunta PIdProduto,
               ProdutoNaoEncontrado ''abc''],
      tabelas = \<lparr>produtos = [soja], veiculos = []\<rparr>, arquivos = []\<rparr>
   = Raise EOFError
      \<lparr>entrada = [],
       saida = [CabecalhoProdutos, TabelaProdutos [soja], Listados, Pergunta PIdProduto,
                ProdutoNaoEncontrado ''abc'', CabecalhoProdutos, TabelaProdutos [soja],
                Listados, Pergunta PIdProduto],
       tabelas = \<lparr>produtos = [soja], veiculos = []\<rparr>, arquivos = []\<rparr>"
  by code_simp

theorem comparar_veiculo_id_desconhecido_witness:
  "comparar_veiculo (mundo_inicial [''abc''] \<lparr>produtos = [soja], veiculos = []\<rparr>)
   = Raise EOFError
      \<lparr>entrada = [],
       saida = [CabecalhoProdutos, TabelaProdutos [soja], Listados, Pergunta PIdProduto,
                ProdutoNaoEncontrado ''abc'', CabecalhoProdutos, TabelaProdutos [soja],
                Listados, Pergunta PIdProduto],
       tabelas = \<lparr>produtos = [soja], veiculos = []\<rparr>, arquivos = []\<rparr>"
  using comparar_veiculo_id_desconhecido
     [of "mundo_inicial [''abc''] \<lparr>produtos = [soja], veiculos = []\<rparr>" "''abc''" "[]"]
    nao_isdigit_abc comparar_veiculo_fim_da_entrada
  by (simp add: mundo_inicial_def)

text \<open>
  Which digit strings make \<open>int\<close> raise.  On a non-empty string of decimal digits that is
  not longer than the limit \<open>int\<close> delivers a number, which is not negative.
\<close>

lemma digito_nao_espaco: "digito_decimal c \<Longrightarrow> \<not> espaco_int c"
  by (auto simp: digito_decimal_def espaco_int_def Let_def)

lemma digito_nao_sinal:
  "digito_decimal c \<Longrightarrow> c \<noteq> CHR ''+'' \<and> c \<noteq> CHR ''-'' \<and> c \<noteq> CHR ''_''"
  by (auto simp: digito_decimal_def)

lemma digitos_valor_decimal:
  "list_all digito_decimal cs \<Longrightarrow> \<exists>n. digitos_valor acc cs = Some n"
  by (induction cs arbitrary: acc) auto

lemma filtro_decimal: "list_all digito_decimal s \<Longrightarrow> filter digito_decimal s = s"
  by (induction s) auto

lemma caractere_digito_nao_espaco: "caractere_digito c \<Longrightarrow> \<not> espaco_int c"
  by (auto simp: caractere_digito_def digito_decimal_def espaco_int_def Let_def)

lemma caractere_digito_nao_sinal:
  "caractere_digito c \<Longrightarrow> c \<noteq> CHR ''+'' \<and> c \<noteq> CHR ''-'' \<and> c \<noteq> CHR ''_''"
  by (auto simp: caractere_digito_def digito_decimal_def)

lemma digitos_valor_sobrescrito:
  "list_all caractere_digito cs \<Longrightarrow> \<not> list_all digito_decimal cs \<Longrightarrow>
   digitos_valor acc cs = None"
  by (induction cs arbitrary: acc) (auto dest: caractere_digito_nao_sinal)

lemma isdigit_sem_espacos:
  assumes "str_isdigit s"
  shows "rev (dropWhile espaco_int (rev (dropWhile espaco_int s))) = s"
proof -
  from assms have ne: "s \<noteq> []" and d: "list_all caractere_digito s"
    by (simp_all add: str_isdigit_def)
  from ne d have "caractere_digito (hd s)"
    by (cases s) simp_all
  then have l: "dropWhile espaco_int s = s"
    using ne by (simp add: dropWhile_eq_self_iff caractere_digito_nao_espaco)
  have "last s \<in> set s" using ne by simp
  with d have "caractere_digito (last s)" by (simp add: list_all_iff)
  then have "\<not> espaco_int (hd (rev s))"
    using ne by (simp add: hd_rev caractere_digito_nao_espaco)
  then have "dropWhile espaco_int (rev s) = rev s"
    by (simp add: dropWhile_eq_self_iff)
  with l show ?thesis by simp
qed

lemma isdigit_py_int:
  assumes "str_isdigit s"
  shows "py_int s = map_option int (literal_decimal s)"
proof -
  from assms obtain c cs where s: "s = c # cs" and c: "caractere_digito c"
    by (cases s) (auto simp: str_isdigit_def)
  show ?thesis
    unfolding py_int_def isdigit_sem_espacos [OF assms] Let_def
    using caractere_digito_nao_sinal [OF c] by (simp add: s)
qed

lemma literal_decimal_digitos:
  assumes "s \<noteq> []" and "list_all digito_decimal s"
  shows "(length s \<le> int_max_str_digits \<longrightarrow> (\<exists>n. literal_decimal s = Some n)) \<and>
         (int_max_str_digits < length s \<longrightarrow> literal_decimal s = None)"
proof -
  from assms obtain c cs where s: "s = c # cs" by (cases s) auto
  with assms have c: "digito_decimal c" and cs: "list_all digito_decimal cs" by simp_all
  have f: "length (filter digito_decimal s) = length s"
    using assms(2) by (simp add: filtro_decimal)
  have d: "literal_decimal s =
      (if int_max_str_digits < length s then None else digitos_valor (valor_digito c) cs)"
    unfolding literal_decimal_def f using c by (simp add: s)
  from digitos_valor_decimal [OF cs] obtain n where
    "digitos_valor (valor_digito c) cs = Some n"
    by blast
  with d show ?thesis by auto
qed

lemma literal_decimal_sobrescrito:
  assumes "str_isdigit s" and "\<not> list_all digito_decimal s"
  shows "literal_decimal s = None"
proof -
  from assms(1) obtain c cs where s: "s = c # cs" and d: "list_all caractere_digito (c # cs)"
    by (cases s) (auto simp: str_isdigit_def)
  show ?thesis
  proof (cases "digito_decimal c")
    case True
    with assms(2) s have "\<not> list_all digito_decimal cs" by simp
    with d have "digitos_valor (valor_digito c) cs = None"
      by (simp add: digitos_valor_sobrescrito)
    with True show ?thesis by (simp add: s literal_decimal_def)
  next
    case False
    then show ?thesis by (simp add: s literal_decimal_def)
  qed
qed

text \<open>
  Among the strings that pass \<open>isdigit\<close>, \<open>int\<close> raises on exactly those that contain a
  character other than a decimal digit, that is, a superscript digit, and those that
  are longer than the limit on the number of digits.
\<close>

theorem isdigit_int_sobrescrito:
  assumes "str_isdigit s"
  shows "py_int s = None \<longleftrightarrow>
         (\<not> list_all digito_decimal s \<or> int_max_str_digits < length s)"
proof (cases "list_all digito_decimal s")
  case True
  from assms have "s \<noteq> []" by (simp add: str_isdigit_def)
  from literal_decimal_digitos [OF this True] True show ?thesis
    by (cases "int_max_str_digits < length s") (auto simp: isdigit_py_int [OF assms])
next
  case False
  with literal_decimal_sobrescrito [OF assms] show ?thesis
    by (simp add: isdigit_py_int [OF assms])
qed

lemma replicate_digitos:
  "str_isdigit (replicate 4301 (CHR ''1'')) \<and>
   list_all digito_decimal (replicate 4301 (CHR ''1''))"
  by (simp add: str_isdigit_def caractere_digito_def digito_decimal_def list_all_iff)

theorem isdigit_int_sobrescrito_witness:
  "str_isdigit [CHR ''1'', CHR 0xB3] \<and> py_int [CHR ''1'', CHR 0xB3] = None \<and>
   \<not> list_all digito_decimal [CHR ''1'', CHR 0xB3] \<and>
   str_isdigit ''2024'' \<and> py_int ''2024'' = Some 2024 \<and> list_all digito_decimal ''2024'' \<and>
   py_int (replicate 4301 (CHR ''1'')) = None"
  using isdigit_int_sobrescrito [of "[CHR ''1'', CHR 0xB3]"]
    isdigit_int_sobrescrito [of "''2024''"]
    isdigit_int_sobrescrito [of "replicate 4301 (CHR ''1'')"]
    replicate_digitos
  by (simp add: str_isdigit_def caractere_digito_def py_int_def espaco_int_def
        literal_decimal_def digito_decimal_def valor_digito_def int_max_str_digits_def)

section \<open>Registration of a vehicle and of a product\<close>

text \<open>
  Claim C6.  The vehicle registration converts the capacity with \<open>int\<close> and applies no
  test to it: with the lines \<open>-5\<close>, \<open>4\<close>, \<open>sim\<close>, \<open>nao\<close> the run completes at the first
  attempt, and the dictionary it hands to the store and returns has capacity \<open>-5\<close>; so
  has the row the store then holds.
\<close>

theorem registro_capacidade_negativa:
  "dados_coletados_transporte ambiente_exemplo
     (mundo_inicial [''-5'', ''4'', ''sim'', ''nao''] \<lparr>produtos = [], veiculos = []\<rparr>)
   = Ret \<lparr>ventilacao = ''SIM'', protecao_solar = ''NAO'', capacidade = - 5, temperatura = 4\<rparr>
      \<lparr>entrada = [],
       saida = [Pergunta PCapacidade, Pergunta PTemperaturaTransporte, Pergunta PTemVentilacao,
                Pergunta PTemProtecao, DadosGravados],
       tabelas =
         \<lparr>produtos = [],
          veiculos = [\<lparr>ventilacao = ''SIM'', protecao_solar = ''NAO'', capacidade = - 5,
                       temperatura = 4, id_veiculo = 1\<rparr>]\<rparr>,
       arquivos = []\<rparr>"
  by code_simp

lemma valor_nulo_RetD:
  "valor_nulo c n w = Ret b w' \<Longrightarrow> b = (c = []) \<and> length (entrada w') = length (entrada w)"
  by (auto simp: valor_nulo_def split: if_splits)

lemma validar_positivo_RetD:
  "validar_positivo k n w = Ret b w' \<Longrightarrow>
   b = (k \<le> 0) \<and> length (entrada w') = length (entrada w)"
  by (auto simp: validar_positivo_def split: if_splits)

lemma coletar_produtos_validado:
  "coletar_produtos env w = Ret d w' \<Longrightarrow>
   0 < quantidade d \<and> produto d \<noteq> [] \<and> origem d \<noteq> [] \<and> destino d \<noteq> []"
proof (induction "length (entrada w)" arbitrary: w rule: less_induct)
  case less
  note IH = less.hyps [rotated]
  from less.prems show ?case
    apply (subst (asm) coletar_produtos.simps)
    apply (auto dest!: bind_RetD py_input_len valor_nulo_RetD validar_positivo_RetD
                split: option.splits if_splits)
    apply (drule IH; simp)+
    done
qed

text \<open>
  The product registration, in contrast, validates what it collects: whenever it
  completes, the dictionary it returns has a positive quantity and a non-empty name,
  origin and destination.
\<close>

theorem dados_coletados_produtos_validado:
  "dados_coletados_produtos env w = Ret d w' \<Longrightarrow>
   0 < quantidade d \<and> produto d \<noteq> [] \<and> origem d \<noteq> [] \<and> destino d \<noteq> []"
  by (auto simp: dados_coletados_produtos_def dest!: bind_RetD coletar_produtos_validado
           split: option.splits)

lemma registro_produto_exemplo:
  "dados_coletados_produtos ambiente_exemplo
     (mundo_inicial
        [''soja'', ''Sorriso'', ''Santos'', ''0'',
         ''soja'', '''',
         ''soja'', ''Sorriso'', ''Santos'', ''100'', ''2'', ''8'', ''sim'', ''nao'']
        \<lparr>produtos = [], veiculos = []\<rparr>)
   = Ret \<lparr>ventilacao = ''SIM'', protecao_solar = ''NAO'', produto = ''soja'', quantidade = 100,
          origem = ''Sorriso'', destino = ''Santos'', temperatura_minima = 2,
          temperatura_maxima = 8\<rparr>
      \<lparr>entrada = [],
       saida = [Pergunta PNomeProduto, Pergunta POrigem, Pergunta PDestino,
                Pergunta PQuantidade, NumeroInvalido,
                Pergunta PNomeProduto, Pergunta POrigem, CampoVazio ''origem'',
                Pergunta PNomeProduto, Pergunta POrigem, Pergunta PDestino,
                Pergunta PQuantidade, Pergunta PTemperaturaMinima,
                Pergunta PTemperaturaMaxima, Pergunta PRequerVentilacao,
                Pergunta PRequerProtecao, DadosGravados],
       tabelas = \<lparr>produtos = [soja], veiculos = []\<rparr>, arquivos = []\<rparr>"
  by code_simp

theorem dados_coletados_produtos_validado_witness:
  "0 < quantidade
         \<lparr>ventilacao = ''SIM'', protecao_solar = ''NAO'', produto = ''soja'', quantidade = 100,
          origem = ''Sorriso'', destino = ''Santos'', temperatura_minima = 2,
          temperatura_maxima = 8\<rparr> \<and>
   dados_coletados_produtos ambiente_exemplo
     (mundo_inicial
        [''soja'', ''Sorriso'', ''Santos'', ''0'',
         ''soja'', '''',
         ''soja'', ''Sorriso'', ''Santos'', ''100'', ''2'', ''8'', ''sim'', ''nao'']
        \<lparr>produtos = [], veiculos = []\<rparr>)
   = Ret \<lparr>ventilacao = ''SIM'', protecao_solar = ''NAO'', produto = ''soja'', quantidade = 100,
          origem = ''Sorriso'', destino = ''Santos'', temperatura_minima = 2,
          temperatura_maxima = 8\<rparr>
      \<lparr>entrada = [],
       saida = [Pergunta PNomeProduto, Pergunta POrigem, Pergunta PDestino,
                Pergunta PQuantidade, NumeroInvalido,
                Pergunta PNomeProduto, Pergunta POrigem, CampoVazio ''origem'',
                Pergunta PNomeProduto, Pergunta POrigem, Pergunta PDestino,
                Pergunta PQuantidade, Pergunta PTemperaturaMinima,
                Pergunta PTemperaturaMaxima, Pergunta PRequerVentilacao,
                Pergunta PRequerProtecao, DadosGravados],
       tabelas = \<lparr>produtos = [soja], veiculos = []\<rparr>, arquivos = []\<rparr>"
  using dados_coletados_produtos_validado [OF registro_produto_exemplo]
    registro_produto_exemplo
  by simp

section \<open>The dispatcher never returns\<close>

lemma bind_sem_Ret:
  assumes "\<And>x w'. r \<noteq> Ret x w'"
  shows "bind r f = r"
  using assms by (cases r) auto

lemma opcao_escolhida_sem_Ret: "opcao_escolhida env escolha w \<noteq> Ret u w'"
proof (induction env escolha w rule: opcao_escolhida.induct)
  case (1 env escolha w)
  show ?case
  proof
    assume "opcao_escolhida env escolha w = Ret u w'"
    then obtain x1 w1 x2 w2 e w3 where
      "executar_opcao env escolha w = Ret x1 w1" "py_input PEnter w1 = Ret x2 w2"
      "menu w2 = Ret e w3" "opcao_escolhida env e w3 = Ret u w'"
      by (subst (asm) opcao_escolhida.simps) (blast dest: bind_RetD)
    with "1.IH" show False by blast
  qed
qed

text \<open>
  A run of the main program in which the call of \<open>dados_coletados_produtos\<close> placed after
  the dispatcher is not executed: the user chooses 7, the dispatcher ends in \<open>exit(0)\<close>
  instead of returning, and the program stops there; the prompt for a product name was
  never shown and the next line of input was never read.
\<close>

theorem principal_sair_sem_cadastro:
  "menu (mundo_inicial [''7'', ''arroz''] \<lparr>produtos = [], veiculos = []\<rparr>)
   = Ret 7 \<lparr>entrada = [''arroz''], saida = [TextoMenu, Pergunta PEscolha],
       tabelas = \<lparr>produtos = [], veiculos = []\<rparr>, arquivos = []\<rparr> \<and>
   opcao_escolhida ambiente_exemplo 7
     \<lparr>entrada = [''arroz''], saida = [TextoMenu, Pergunta PEscolha],
      tabelas = \<lparr>produtos = [], veiculos = []\<rparr>, arquivos = []\<rparr>
   = Exit \<lparr>entrada = [''arroz''], saida = [TextoMenu, Pergunta PEscolha, Saindo],
       tabelas = \<lparr>produtos = [], veiculos = []\<rparr>, arquivos = []\<rparr> \<and>
   principal ambiente_exemplo (mundo_inicial [''7'', ''arroz''] \<lparr>produtos = [], veiculos = []\<rparr>)
   = Exit \<lparr>entrada = [''arroz''], saida = [TextoMenu, Pergunta PEscolha, Saindo],
       tabelas = \<lparr>produtos = [], veiculos = []\<rparr>, arquivos = []\<rparr> \<and>
   Pergunta PNomeProduto \<notin> set [TextoMenu, Pergunta PEscolha, Saindo]"
  by code_simp

text \<open>
  Claim C10, amended.  The dispatcher loop never ends by returning: a run of it can end
  only with \<open>exit(0)\<close> inside \<open>sair\<close> or with an exception that nothing catches.  So the
  call of \<open>dados_coletados_produtos\<close> placed after the dispatcher call is executed in no run
  of the main program, which behaves as the menu followed by the dispatcher.
\<close>

theorem principal_sem_cadastro_final:
  "opcao_escolhida env escolha w \<noteq> Ret u w' \<and>
   principal env w =
     (if conexao env then bind (menu w) (\<lambda>escolha w1. opcao_escolhida env escolha w1)
      else Ret () (py_print SemConexao (py_print ErroConexao w)))"
proof -
  have "bind (opcao_escolhida env e w1) k = opcao_escolhida env e w1" for e w1 k
    by (rule bind_sem_Ret) (rule opcao_escolhida_sem_Ret)
  then show ?thesis
    by (cases "menu w") (simp_all add: principal_def opcao_escolhida_sem_Ret)
qed

lemma menu_depois_de_listar:
  "bind (menu (mundo_inicial [''3'', '''', ''7''] \<lparr>produtos = [], veiculos = []\<rparr>))
     (\<lambda>escolha w1. opcao_escolhida ambiente_exemplo escolha w1)
   = Exit \<lparr>entrada = [],
       saida = [TextoMenu, Pergunta PEscolha, CabecalhoProdutos, SemProdutos, Pergunta PEnter,
                TextoMenu, Pergunta PEscolha, Saindo],
       tabelas = \<lparr>produtos = [], veiculos = []\<rparr>, arquivos = []\<rparr>"
  by code_simp

lemma conexao_exemplo: "conexao ambiente_exemplo"
  by (simp add: ambiente_exemplo_def)

theorem principal_sem_cadastro_final_witness:
  "principal ambiente_exemplo (mundo_inicial [''3'', '''', ''7''] \<lparr>produtos = [], veiculos = []\<rparr>)
   = Exit \<lparr>entrada = [],
       saida = [TextoMenu, Pergunta PEscolha, CabecalhoProdutos, SemProdutos, Pergunta PEnter,
                TextoMenu, Pergunta PEscolha, Saindo],
       tabelas = \<lparr>produtos = [], veiculos = []\<rparr>, arquivos = []\<rparr>"
  using principal_sem_cadastro_final
     [of ambiente_exemplo 0 "mundo_inicial [] \<lparr>produtos = [], veiculos = []\<rparr>" "()"
         "mundo_inicial [] \<lparr>produtos = [], veiculos = []\<rparr>"]
    principal_sem_cadastro_final
     [of ambiente_exemplo 0
         "mundo_inicial [''3'', '''', ''7''] \<lparr>produtos = [], veiculos = []\<rparr>" "()"
         "mundo_inicial [] \<lparr>produtos = [], veiculos = []\<rparr>"]
    menu_depois_de_listar conexao_exemplo
  by simp

section \<open>The menu\<close>

text \<open>The choice the menu returns is one of the seven options.\<close>

theorem menu_intervalo: "menu w = Ret e w' \<Longrightarrow> 1 \<le> e \<and> e \<le> 7"
proof (induction "length (entrada w)" arbitrary: w rule: less_induct)
  case less
  note IH = less.hyps [rotated]
  from less.prems show ?case
    apply (subst (asm) menu.simps)
    apply (auto dest!: bind_RetD py_input_len split: option.splits if_splits)
    apply (drule IH; simp)+
    done
qed

lemma menu_exemplo:
  "menu (mundo_inicial [''0'', ''oito'', ''8'', '' 5 '', ''1''] \<lparr>produtos = [], veiculos = []\<rparr>)
   = Ret 5
      \<lparr>entrada = [''1''],
       saida = [TextoMenu, Pergunta PEscolha, EscolhaInvalida,
                TextoMenu, Pergunta PEscolha, EscolhaInvalida,
                TextoMenu, Pergunta PEscolha, EscolhaInvalida,
                TextoMenu, Pergunta PEscolha],
       tabelas = \<lparr>produtos = [], veiculos = []\<rparr>, arquivos = []\<rparr>"
  by code_simp

theorem menu_intervalo_witness:
  "(1::int) \<le> 5 \<and> (5::int) \<le> 7 \<and>
   menu (mundo_inicial [''0'', ''oito'', ''8'', '' 5 '', ''1''] \<lparr>produtos = [], veiculos = []\<rparr>)
   = Ret 5
      \<lparr>entrada = [''1''],
       saida = [TextoMenu, Pergunta PEscolha, EscolhaInvalida,
                TextoMenu, Pergunta PEscolha, EscolhaInvalida,
                TextoMenu, Pergunta PEscolha, EscolhaInvalida,
                TextoMenu, Pergunta PEscolha],
       tabelas = \<lparr>produtos = [], veiculos = []\<rparr>, arquivos = []\<rparr>"
  using menu_intervalo [OF menu_exemplo] menu_exemplo
  by simp

end
